theory Spec2Isabelle
  imports Complex_Main "HOL-Library.Log_Nat"
begin

section \<open>The Python runtime the loan application relies on\<close>

text \<open>
  \<^verbatim>\<open>loan_app.py\<close> computes with \<^verbatim>\<open>datetime.date\<close> values, with Python
  numbers and with strings. A date is represented by its proleptic Gregorian ordinal
  (\<^verbatim>\<open>date.toordinal()\<close>, day 1 is 0001-01-01): \<^verbatim>\<open>(a - b).days\<close> is the
  difference of the ordinals and \<^verbatim>\<open>a <= b\<close> is their order.
\<close>

type_synonym date = int

subsection \<open>Floats\<close>

text \<open>
  Amounts and rates are Python floats (IEEE 754 binary64). A finite float is represented
  by the real number it denotes, and every arithmetic operation rounds its exact result
  to the nearest float, a tie going to the even significand: that is \<open>fl\<close>. A float has
  53 significant bits, and the least exponent of a normal float is \<open>-1022\<close>; below it the
  spacing stays \<open>2\<^sup>-\<^sup>1\<^sup>0\<^sup>7\<^sup>4\<close>. What is outside the model: the sign of a zero, and overflow
  (a result of magnitude \<open>2\<^sup>1\<^sup>0\<^sup>2\<^sup>4\<close> or more, which Python makes an infinity): \<open>fl\<close>
  has no largest exponent.
\<close>

definition round_half_even :: "real \<Rightarrow> int" where
  "round_half_even x =
     (let f = \<lfloor>x\<rfloor>; d = x - of_int f
      in if d < 1 / 2 then f
         else if 1 / 2 < d then f + 1
         else if even f then f else f + 1)"

text \<open>\<open>ilog2 y\<close> is the binary exponent of \<open>y > 0\<close>: \<open>2\<^sup>e \<le> y < 2\<^sup>e\<^sup>+\<^sup>1\<close>.\<close>

definition ilog2 :: "real \<Rightarrow> int" where
  "ilog2 y = (if 1 \<le> y then bitlen \<lfloor>y\<rfloor> - 1 else - bitlen (\<lceil>1 / y\<rceil> - 1))"

text \<open>The exponent of the last bit of the floats around \<open>x\<close>.\<close>

definition quantum :: "real \<Rightarrow> int" where
  "quantum x = max (ilog2 \<bar>x\<bar>) (- 1022) - 52"

definition fl :: "real \<Rightarrow> real" where
  "fl x =
     (if x = 0 then 0
      else of_int (round_half_even (x / 2 powi quantum x)) * 2 powi quantum x)"

text \<open>
  Float multiplication, division and addition, and the conversion of a Python
  \<^verbatim>\<open>int\<close> operand of a mixed operation.
\<close>

definition fmul :: "real \<Rightarrow> real \<Rightarrow> real" where
  "fmul a b = fl (a * b)"

definition fdiv :: "real \<Rightarrow> real \<Rightarrow> real" where
  "fdiv a b = fl (a / b)"

definition fadd :: "real \<Rightarrow> real \<Rightarrow> real" where
  "fadd a b = fl (a + b)"

definition float_of_int :: "int \<Rightarrow> real" where
  "float_of_int n = fl (of_int n)"

text \<open>
  \<^verbatim>\<open>round(x, ndigits)\<close> of a float, for the small non-negative \<^verbatim>\<open>ndigits\<close> of this
  program: the exact value of \<open>x\<close> is rounded to the nearest multiple of
  \<open>10\<^sup>-\<^sup>n\<close>, a tie going to the even neighbour, and the float nearest to that decimal is
  returned.
\<close>

definition py_round :: "real \<Rightarrow> nat \<Rightarrow> real" where
  "py_round x ndigits = fl (of_int (round_half_even (x * 10 ^ ndigits)) / 10 ^ ndigits)"

subsection \<open>Strings\<close>

text \<open>
  \<^verbatim>\<open>str(n)\<close> of a natural number, zero padding (\<^verbatim>\<open>%02d\<close>) and the
  thousands separator of the format specification \<^verbatim>\<open>,\<close>.
\<close>

fun digits :: "nat \<Rightarrow> string" where
  "digits n =
     (if n < 10 then [''0123456789'' ! n]
      else digits (n div 10) @ [''0123456789'' ! (n mod 10)])"

declare digits.simps [simp del]

definition zfill :: "nat \<Rightarrow> string \<Rightarrow> string" where
  "zfill w s = replicate (w - length s) (CHR ''0'') @ s"

fun group3 :: "string \<Rightarrow> string" where
  "group3 s =
     (if length s \<le> 3 then s
      else group3 (take (length s - 3) s) @ '','' @ drop (length s - 3) s)"

declare group3.simps [simp del]

text \<open>
  \<^verbatim>\<open>f'{amount:,.2f}'\<close>: two decimals (ties to even), the integer part grouped
  in thousands, a minus sign for a negative amount.
\<close>

definition format_amount :: "real \<Rightarrow> string" where
  "format_amount amount =
     (let cents = nat (round_half_even (\<bar>amount\<bar> * 100))
      in (if amount < 0 then ''-'' else []) @
         group3 (digits (cents div 100)) @ ''.'' @ zfill 2 (digits (cents mod 100)))"

text \<open>
  \<^verbatim>\<open>str(d)\<close> of a date is its ISO form \<^verbatim>\<open>YYYY-MM-DD\<close>. The year, month and
  day of an ordinal are found as \<^verbatim>\<open>datetime._ord2ymd\<close> finds them. A
  \<^verbatim>\<open>datetime.date\<close> has an ordinal from 1 (0001-01-01) to 3652059 (9999-12-31).
\<close>

definition DAYS_IN_MONTH :: "int list" where
  "DAYS_IN_MONTH = [-1, 31, 28, 31, 30, 31, 30, 31, 31, 30, 31, 30, 31]"

definition DAYS_BEFORE_MONTH :: "int list" where
  "DAYS_BEFORE_MONTH = [-1, 0, 31, 59, 90, 120, 151, 181, 212, 243, 273, 304, 334]"

definition ord2ymd :: "date \<Rightarrow> int \<times> int \<times> int" where
  "ord2ymd ordinal =
     (let n = ordinal - 1;
          n400 = n div 146097; n = n mod 146097;
          n100 = n div 36524; n = n mod 36524;
          n4 = n div 1461; n = n mod 1461;
          n1 = n div 365; n = n mod 365;
          year = n400 * 400 + 1 + n100 * 100 + n4 * 4 + n1
      in if n1 = 4 \<or> n100 = 4 then (year - 1, 12, 31)
         else
           let leapyear = (n1 = 3 \<and> (n4 \<noteq> 24 \<or> n100 = 3));
               month = (n + 50) div 32;
               preceding = DAYS_BEFORE_MONTH ! nat month + (if 2 < month \<and> leapyear then 1 else 0)
           in if n < preceding
              then let month = month - 1;
                       preceding = preceding -
                         (DAYS_IN_MONTH ! nat month + (if month = 2 \<and> leapyear then 1 else 0))
                   in (year, month, n - preceding + 1)
              else (year, month, n - preceding + 1))"

definition isoformat :: "date \<Rightarrow> string" where
  "isoformat d =
     (case ord2ymd d of
        (year, month, day) \<Rightarrow>
          zfill 4 (digits (nat year)) @ ''-'' @ zfill 2 (digits (nat month)) @ ''-'' @
          zfill 2 (digits (nat day)))"

text \<open>The rupee sign U+20B9 of the history texts, as its three UTF-8 bytes.\<close>

definition rupee :: string where
  "rupee = [CHR 0xE2, CHR 0x82, CHR 0xB9]"

section \<open>Accrual calculator\<close>

text \<open>
  \<^verbatim>\<open>
  def calculate_interest(amount, rate, start_date, end_date):
      days = (end_date - start_date).days
      interest = (amount * rate * days) / (100 * 365)
      return round(interest, 2)
  \<close>
\<close>

definition calculate_interest :: "real \<Rightarrow> real \<Rightarrow> date \<Rightarrow> date \<Rightarrow> real" where
  "calculate_interest amount rate start_date end_date =
     (let days = end_date - start_date;
          interest = fdiv (fmul (fmul amount rate) (float_of_int days)) (float_of_int (100 * 365))
      in py_round interest 2)"

text \<open>
  \<^verbatim>\<open>
  def calculate_days_remaining(end_date):
      remaining = (end_date - date.today()).days
      return max(remaining, 0)
  \<close>
  The clock read by \<^verbatim>\<open>date.today()\<close> is the explicit argument \<open>today\<close>.
\<close>

definition calculate_days_remaining :: "date \<Rightarrow> date \<Rightarrow> int" where
  "calculate_days_remaining today end_date =
     (let remaining = end_date - today in max remaining 0)"

text \<open>
  The colour that \<^verbatim>\<open>get_all_loans\<close> attaches to a row:
  \<^verbatim>\<open>lambda x: 'red' if x <= 30 else 'yellow' if x <= 90 else 'green'\<close>.
\<close>

definition status_color_of :: "int \<Rightarrow> string" where
  "status_color_of x = (if x \<le> 30 then ''red'' else if x \<le> 90 then ''yellow'' else ''green'')"

section \<open>Ledger store\<close>

text \<open>
  The two tables that \<^verbatim>\<open>init_db\<close> creates. A row of \<^verbatim>\<open>loans\<close> and a row of
  \<^verbatim>\<open>loan_history\<close> are records; the columns carry the prefix of the alias that the
  join of \<^verbatim>\<open>get_loan_history\<close> gives the table (\<^verbatim>\<open>l\<close>, \<^verbatim>\<open>h\<close>). A table is the
  list of its rows in insertion order. The timestamps that SQLite fills in by
  \<^verbatim>\<open>DEFAULT CURRENT_TIMESTAMP\<close> are seconds of a clock, the explicit argument
  \<open>now\<close> of every writing operation. The stored dates are the dates passed in: the
  text form that \<^verbatim>\<open>sqlite3\<close> writes and \<^verbatim>\<open>pd.to_datetime\<close> reads back is not
  modelled.
\<close>

record loan =
  l_id :: int
  l_farmer_name :: string
  l_father_name :: string
  l_loan_amount :: real
  l_interest_rate :: real
  l_start_date :: date
  l_end_date :: date
  l_status :: string
  l_created_at :: nat

record history =
  h_id :: int
  h_loan_id :: int
  h_action :: string
  h_action_timestamp :: nat
  h_details :: string

text \<open>
  Both primary keys are \<^verbatim>\<open>INTEGER PRIMARY KEY AUTOINCREMENT\<close>: SQLite keeps, per
  table, the largest row id ever used and gives a new row one more than the larger of
  that and the largest id now in the table. The foreign key of \<^verbatim>\<open>loan_history\<close>
  is declared, but no connection of the program turns on
  \<^verbatim>\<open>PRAGMA foreign_keys\<close>, so SQLite does not enforce it.
\<close>

record db =
  loans :: "loan list"
  loan_history :: "history list"
  loans_seq :: int
  loan_history_seq :: int

definition next_rowid :: "int \<Rightarrow> int list \<Rightarrow> int" where
  "next_rowid seq ids = fold max ids seq + 1"

definition empty_db :: db where
  "empty_db = \<lparr>loans = [], loan_history = [], loans_seq = 0, loan_history_seq = 0\<rparr>"

text \<open>
  \<^verbatim>\<open>init_db\<close>: \<^verbatim>\<open>CREATE TABLE IF NOT EXISTS\<close> makes the empty tables in a new
  file (\<open>None\<close>) and leaves an existing database as it is.
\<close>

definition init_db :: "db option \<Rightarrow> db" where
  "init_db file = (case file of None \<Rightarrow> empty_db | Some d \<Rightarrow> d)"

subsection \<open>The SQL statements\<close>

text \<open>
  \<^verbatim>\<open>INSERT INTO loans (farmer_name, father_name, loan_amount, interest_rate,
  start_date, end_date) VALUES (?, ?, ?, ?, ?, ?)\<close>, with the new row id
  (\<^verbatim>\<open>c.lastrowid\<close>).
\<close>

definition insert_loans ::
  "nat \<Rightarrow> db \<Rightarrow> string \<Rightarrow> string \<Rightarrow> real \<Rightarrow> real \<Rightarrow> date \<Rightarrow> date \<Rightarrow> int \<times> db" where
  "insert_loans now d farmer_name father_name amount rate start_date end_date =
     (let lastrowid = next_rowid (loans_seq d) (map l_id (loans d))
      in (lastrowid,
          d\<lparr>loans := loans d @
               [\<lparr>l_id = lastrowid, l_farmer_name = farmer_name, l_father_name = father_name,
                 l_loan_amount = amount, l_interest_rate = rate, l_start_date = start_date,
                 l_end_date = end_date, l_status = ''Active'', l_created_at = now\<rparr>],
            loans_seq := lastrowid\<rparr>))"

text \<open>\<^verbatim>\<open>INSERT INTO loan_history (loan_id, action, details) VALUES (?, ?, ?)\<close>\<close>

definition insert_loan_history :: "nat \<Rightarrow> db \<Rightarrow> int \<Rightarrow> string \<Rightarrow> string \<Rightarrow> db" where
  "insert_loan_history now d loan_id action details =
     (let rowid = next_rowid (loan_history_seq d) (map h_id (loan_history d))
      in d\<lparr>loan_history := loan_history d @
              [\<lparr>h_id = rowid, h_loan_id = loan_id, h_action = action,
                h_action_timestamp = now, h_details = details\<rparr>],
           loan_history_seq := rowid\<rparr>)"

text \<open>\<^verbatim>\<open>UPDATE loans SET status = 'Inactive' WHERE id = ?\<close>\<close>

definition update_loans_status :: "db \<Rightarrow> int \<Rightarrow> db" where
  "update_loans_status d loan_id =
     d\<lparr>loans := map (\<lambda>l. if l_id l = loan_id then l\<lparr>l_status := ''Inactive''\<rparr> else l) (loans d)\<rparr>"

text \<open>\<^verbatim>\<open>UPDATE loans SET end_date = ? WHERE id = ?\<close>\<close>

definition update_loans_end_date :: "db \<Rightarrow> date \<Rightarrow> int \<Rightarrow> db" where
  "update_loans_end_date d new_end_date loan_id =
     d\<lparr>loans := map (\<lambda>l. if l_id l = loan_id then l\<lparr>l_end_date := new_end_date\<rparr> else l) (loans d)\<rparr>"

subsection \<open>The writing operations\<close>

text \<open>
  Each writing operation opens a connection, runs two statements and commits, all inside
  \<^verbatim>\<open>try\<close>; \<^verbatim>\<open>except Exception as e\<close> shows \<^verbatim>\<open>st.error\<close> and returns
  \<^verbatim>\<open>False\<close>, and \<^verbatim>\<open>finally\<close> closes the connection, which discards what was not
  committed. No statement of the program raises by itself in this model (the arguments
  are typed, the constraints of the schema hold for them); what can raise is the storage
  (a locked or unwritable file). That is the argument \<open>flt\<close>: \<open>Raises e\<close> is an
  exception with message \<open>e\<close> from \<^verbatim>\<open>sqlite3\<close> before the commit has happened.
  An operation returns its Python result, the messages it shows and the database after it.
\<close>

datatype fault = NoFault | Raises string

datatype st_msg = StError string | StSuccess string | StBalloons

text \<open>
  \<^verbatim>\<open>
  def add_loan(farmer_name, father_name, amount, rate, start_date, end_date):
      ...
      try:
          c.execute('INSERT INTO loans ...', (farmer_name, father_name, amount, rate, start_date, end_date))
          loan_id = c.lastrowid
          c.execute('INSERT INTO loan_history (loan_id, action, details) VALUES (?, ?, ?)',
                    (loan_id, 'CREATE', f'Loan created for {farmer_name} (s/o {father_name}) with amount R{amount:,.2f}'))
          conn.commit()
          return True
      except Exception as e:
          st.error(f"Error adding loan: {str(e)}")
          return False
  \<close>
  (\<^verbatim>\<open>R\<close> stands for the rupee sign here.)
\<close>

definition add_loan ::
  "fault \<Rightarrow> nat \<Rightarrow> db \<Rightarrow> string \<Rightarrow> string \<Rightarrow> real \<Rightarrow> real \<Rightarrow> date \<Rightarrow> date
     \<Rightarrow> bool \<times> st_msg list \<times> db" where
  "add_loan flt now d farmer_name father_name amount rate start_date end_date =
     (case flt of
        Raises e \<Rightarrow> (False, [StError (''Error adding loan: '' @ e)], d)
      | NoFault \<Rightarrow>
          (case insert_loans now d farmer_name father_name amount rate start_date end_date of
             (loan_id, d1) \<Rightarrow>
               (True, [],
                insert_loan_history now d1 loan_id ''CREATE''
                  (''Loan created for '' @ farmer_name @ '' (s/o '' @ father_name @
                   '') with amount '' @ rupee @ format_amount amount))))"

text \<open>
  \<^verbatim>\<open>
  def delete_loan(loan_id, reason):
      ...
      try:
          c.execute("UPDATE loans SET status = 'Inactive' WHERE id = ?", (loan_id,))
          c.execute('INSERT INTO loan_history (loan_id, action, details) VALUES (?, ?, ?)',
                    (loan_id, 'DELETE', f'Loan marked as inactive. Reason: {reason}'))
          conn.commit()
          return True
      except Exception as e:
          st.error(f"Error deleting loan: {str(e)}")
          return False
  \<close>
\<close>

definition delete_loan :: "fault \<Rightarrow> nat \<Rightarrow> db \<Rightarrow> int \<Rightarrow> string \<Rightarrow> bool \<times> st_msg list \<times> db" where
  "delete_loan flt now d loan_id reason =
     (case flt of
        Raises e \<Rightarrow> (False, [StError (''Error deleting loan: '' @ e)], d)
      | NoFault \<Rightarrow>
          (True, [],
           insert_loan_history now (update_loans_status d loan_id) loan_id ''DELETE''
             (''Loan marked as inactive. Reason: '' @ reason)))"

text \<open>
  \<^verbatim>\<open>
  def update_loan_end_date(loan_id, new_end_date, reason):
      ...
      try:
          c.execute("UPDATE loans SET end_date = ? WHERE id = ?", (new_end_date, loan_id))
          c.execute('INSERT INTO loan_history (loan_id, action, details) VALUES (?, ?, ?)',
                    (loan_id, 'UPDATE', f'End date updated to {new_end_date}. Reason: {reason}'))
          conn.commit()
          return True
      except Exception as e:
          st.error(f"Error updating loan: {str(e)}")
          return False
  \<close>
\<close>

definition update_loan_end_date ::
  "fault \<Rightarrow> nat \<Rightarrow> db \<Rightarrow> int \<Rightarrow> date \<Rightarrow> string \<Rightarrow> bool \<times> st_msg list \<times> db" where
  "update_loan_end_date flt now d loan_id new_end_date reason =
     (case flt of
        Raises e \<Rightarrow> (False, [StError (''Error updating loan: '' @ e)], d)
      | NoFault \<Rightarrow>
          (True, [],
           insert_loan_history now (update_loans_end_date d new_end_date loan_id) loan_id ''UPDATE''
             (''End date updated to '' @ isoformat new_end_date @ ''. Reason: '' @ reason)))"

text \<open>
  The handler of the form of the page "Add New Loan" in \<^verbatim>\<open>main\<close>, run when the
  form is submitted:
  \<^verbatim>\<open>
  if end_date <= start_date:
      st.error("End date must be after start date!")
  elif loan_amount <= 0:
      st.error("Loan amount must be greater than 0!")
  elif not farmer_name or not father_name:
      st.error("Farmer name and father's name are required!")
  else:
      if add_loan(farmer_name, father_name, loan_amount, interest_rate, start_date, end_date):
          st.success("Loan added successfully!")
          st.balloons()
  \<close>
\<close>

definition add_loan_form ::
  "fault \<Rightarrow> nat \<Rightarrow> db \<Rightarrow> string \<Rightarrow> string \<Rightarrow> real \<Rightarrow> real \<Rightarrow> date \<Rightarrow> date \<Rightarrow> st_msg list \<times> db" where
  "add_loan_form flt now d farmer_name father_name loan_amount interest_rate start_date end_date =
     (if end_date \<le> start_date then ([StError ''End date must be after start date!''], d)
      else if loan_amount \<le> 0 then ([StError ''Loan amount must be greater than 0!''], d)
      else if farmer_name = [] \<or> father_name = []
      then ([StError (''Farmer name and father'' @ [CHR 0x27] @ ''s name are required!'')], d)
      else
        (case add_loan flt now d farmer_name father_name loan_amount interest_rate
                start_date end_date of
           (ok, shown, d') \<Rightarrow>
             if ok then (shown @ [StSuccess ''Loan added successfully!'', StBalloons], d')
             else (shown, d')))"

subsection \<open>The reading operations\<close>

text \<open>
  \<^verbatim>\<open>get_all_loans\<close> selects the rows with \<^verbatim>\<open>status = 'Active'\<close> and, when there
  are any, adds four computed columns to each (an empty frame stays as it is: no rows).
  \<^verbatim>\<open>
  today = date.today()
  loans_df['current_interest'] = loans_df.apply(lambda x: calculate_interest(
      x['loan_amount'], x['interest_rate'], x['start_date'].date(), today), axis=1)
  loans_df['total_amount'] = loans_df['loan_amount'] + loans_df['current_interest']
  loans_df['days_remaining'] = loans_df['end_date'].apply(lambda x: calculate_days_remaining(x.date()))
  loans_df['status_color'] = loans_df['days_remaining'].apply(
      lambda x: 'red' if x <= 30 else 'yellow' if x <= 90 else 'green')
  \<close>
\<close>

record loan_view = loan +
  current_interest :: real
  total_amount :: real
  days_remaining :: int
  status_color :: string

definition with_computed :: "date \<Rightarrow> loan \<Rightarrow> loan_view" where
  "with_computed today x =
     (let interest = calculate_interest (l_loan_amount x) (l_interest_rate x) (l_start_date x) today;
          remaining = calculate_days_remaining today (l_end_date x)
      in \<lparr>l_id = l_id x, l_farmer_name = l_farmer_name x, l_father_name = l_father_name x,
          l_loan_amount = l_loan_amount x, l_interest_rate = l_interest_rate x,
          l_start_date = l_start_date x, l_end_date = l_end_date x, l_status = l_status x,
          l_created_at = l_created_at x,
          current_interest = interest, total_amount = fadd (l_loan_amount x) interest,
          days_remaining = remaining, status_color = status_color_of remaining\<rparr>)"

definition get_all_loans :: "date \<Rightarrow> db \<Rightarrow> loan_view list" where
  "get_all_loans today d = map (with_computed today) (filter (\<lambda>l. l_status l = ''Active'') (loans d))"

text \<open>
  \<^verbatim>\<open>
  SELECT h.action_timestamp, l.farmer_name, l.father_name, h.action, h.details
  FROM loan_history h JOIN loans l ON h.loan_id = l.id
  ORDER BY h.action_timestamp DESC
  \<close>
  An inner join: a history row gives one result row per loan row with its
  \<^verbatim>\<open>loan_id\<close>. SQL leaves the order of rows with equal timestamps open; the model
  keeps them in the order of the join (a stable sort). The theorems below speak of the
  rows returned, not of that order.
\<close>

record history_view =
  v_action_timestamp :: nat
  v_farmer_name :: string
  v_father_name :: string
  v_action :: string
  v_details :: string

definition joined :: "history \<Rightarrow> loan \<Rightarrow> history_view" where
  "joined h l =
     \<lparr>v_action_timestamp = h_action_timestamp h, v_farmer_name = l_farmer_name l,
      v_father_name = l_father_name l, v_action = h_action h, v_details = h_details h\<rparr>"

definition get_loan_history :: "db \<Rightarrow> history_view list" where
  "get_loan_history d =
     sort_key (\<lambda>r. - int (v_action_timestamp r))
       (concat (map (\<lambda>h. map (joined h) (filter (\<lambda>l. h_loan_id h = l_id l) (loans d)))
                    (loan_history d)))"

subsection \<open>The dashboard's loan status summary\<close>

text \<open>
  \<^verbatim>\<open>
  critical_loans = len(loans_df[loans_df['days_remaining'] <= 30])
  warning_loans = len(loans_df[(loans_df['days_remaining'] > 30) & (loans_df['days_remaining'] <= 90)])
  healthy_loans = len(loans_df[loans_df['days_remaining'] > 90])
  \<close>
  shown as "Critical", "Warning (31-90 days)" and "Healthy". The page "Manage Loans"
  colours the remaining days by \<^verbatim>\<open>color_remaining_days\<close>, with the same limits.
\<close>

definition critical_loans :: "loan_view list \<Rightarrow> nat" where
  "critical_loans loans_df = length (filter (\<lambda>x. days_remaining x \<le> 30) loans_df)"

definition warning_loans :: "loan_view list \<Rightarrow> nat" where
  "warning_loans loans_df =
     length (filter (\<lambda>x. 30 < days_remaining x \<and> days_remaining x \<le> 90) loans_df)"

definition healthy_loans :: "loan_view list \<Rightarrow> nat" where
  "healthy_loans loans_df = length (filter (\<lambda>x. 90 < days_remaining x) loans_df)"

definition color_remaining_days :: "int \<Rightarrow> string" where
  "color_remaining_days val =
     (if val \<le> 30 then ''color: red''
      else if val \<le> 90 then ''color: orange''
      else ''color: green'')"

section \<open>The specification's accrual formula and a sample ledger\<close>


text \<open>
  The ledger after \<^verbatim>\<open>init_db\<close> on a new file and one
  \<^verbatim>\<open>add_loan("Asha", "Devi", 10000, 10, date(2024, 1, 1), date(2024, 12, 31))\<close>
  at second 5 of the clock: the dates are the ordinals 738886 and 739251. The concrete
  evaluations below start from it.
\<close>

definition sample_db :: db where
  "sample_db =
     snd (snd (add_loan NoFault 5 (init_db None) ''Asha'' ''Devi'' 10000 10 738886 739251))"

section \<open>Rounding\<close>



lemma round_half_even_of_int [simp]: "round_half_even (of_int k) = k"
  by (simp add: round_half_even_def Let_def)




subsection \<open>The binary exponent\<close>

lemma ilog2_bounds:
  assumes "0 < y"
  shows "2 powi (ilog2 y) \<le> y \<and> y < 2 powi (ilog2 y + 1)"
proof (cases "1 \<le> y")
  case True
  then have pos: "0 < \<lfloor>y\<rfloor>" by linarith
  define k where "k = bitlen \<lfloor>y\<rfloor>"
  from bitlen_bounds [OF pos]
  have lo: "2 ^ nat (k - 1) \<le> \<lfloor>y\<rfloor>" and hi: "\<lfloor>y\<rfloor> < 2 ^ nat k"
    by (simp_all add: k_def)
  have k1: "1 \<le> k"
    unfolding k_def using pos bitlen_eq_zero_iff [of "\<lfloor>y\<rfloor>"] bitlen_nonneg [of "\<lfloor>y\<rfloor>"]
    by linarith
  from lo have "of_int (2 ^ nat (k - 1)) \<le> y" by (simp only: le_floor_iff)
  then have 1: "(2::real) ^ nat (k - 1) \<le> y" by simp
  from hi have "y < of_int (2 ^ nat k)" by (simp only: floor_less_iff)
  then have 2: "y < (2::real) ^ nat k" by simp
  have e: "ilog2 y = k - 1" using True by (simp add: ilog2_def k_def)
  from 1 2 k1 show ?thesis by (simp add: e power_int_nonneg_exp)
next
  case False
  with assms have t: "1 < 1 / y" by simp
  define m where "m = \<lceil>1 / y\<rceil> - 1"
  from t have pos: "0 < m" unfolding m_def by linarith
  define k where "k = bitlen m"
  from bitlen_bounds [OF pos]
  have lo: "2 ^ nat (k - 1) \<le> m" and hi: "m < 2 ^ nat k"
    by (simp_all add: k_def)
  have k1: "1 \<le> k"
    unfolding k_def using pos bitlen_eq_zero_iff [of m] bitlen_nonneg [of m] by linarith
  from lo have "2 ^ nat (k - 1) < \<lceil>1 / y\<rceil>" unfolding m_def by linarith
  then have "of_int (2 ^ nat (k - 1)) < 1 / y" by (simp only: less_ceiling_iff)
  then have a: "(2::real) ^ nat (k - 1) < 1 / y" by simp
  from hi have "\<lceil>1 / y\<rceil> \<le> 2 ^ nat k" unfolding m_def by linarith
  then have "1 / y \<le> of_int (2 ^ nat k)" by (simp only: ceiling_le_iff)
  then have b: "1 / y \<le> (2::real) ^ nat k" by simp
  have e: "ilog2 y = - k" using False by (simp add: ilog2_def k_def m_def)
  have "1 / (2::real) ^ nat k \<le> y"
    using b assms by (simp add: field_simps)
  then have 1: "2 powi (- k) \<le> y"
    using k1 by (simp add: power_int_minus_divide power_int_nonneg_exp)
  have y2: "y < 1 / (2::real) ^ nat (k - 1)"
    using a assms by (simp add: field_simps)
  from k1 have "0 \<le> k - 1" by simp
  then have "(2::real) powi (k - 1) = 2 ^ nat (k - 1)" by (rule power_int_nonneg_exp)
  then have "(2::real) powi (- (k - 1)) = 1 / 2 ^ nat (k - 1)"
    by (simp only: power_int_minus_divide)
  with y2 have 2: "y < 2 powi (- (k - 1))" by (simp only:)
  have e2: "ilog2 y + 1 = - (k - 1)" using e by simp
  from 1 have "2 powi (ilog2 y) \<le> y" by (simp only: e)
  moreover from 2 have "y < 2 powi (ilog2 y + 1)" by (simp only: e2)
  ultimately show ?thesis ..
qed


subsection \<open>Rounding to the nearest float keeps the sign and the order\<close>




lemma quantum_minus [simp]: "quantum (- x) = quantum x"
  by (simp add: quantum_def)














subsection \<open>Integers below \<open>2\<^sup>5\<^sup>3\<close> are floats\<close>

lemma fl_of_int:
  assumes "\<bar>n\<bar> < 2 ^ 53"
  shows "fl (of_int n) = of_int n"
proof (cases "n = 0")
  case True
  then show ?thesis by (simp add: fl_def)
next
  case False
  let ?x = "of_int n :: real"
  have pos: "0 < \<bar>?x\<bar>" using False by simp
  have lt: "ilog2 \<bar>?x\<bar> < 53"
  proof (rule ccontr)
    assume "\<not> ilog2 \<bar>?x\<bar> < 53"
    then have "(2::real) powi 53 \<le> 2 powi ilog2 \<bar>?x\<bar>"
      by (intro power_int_increasing) simp_all
    moreover have "2 powi ilog2 \<bar>?x\<bar> \<le> \<bar>?x\<bar>"
      using ilog2_bounds [OF pos] ..
    moreover from assms have "of_int \<bar>n\<bar> < (of_int (2 ^ 53) :: real)"
      by (simp only: of_int_less_iff)
    ultimately show False by simp
  qed
  define k where "k = nat (- quantum ?x)"
  from lt have "quantum ?x \<le> 0" by (simp add: quantum_def)
  then have "quantum ?x = - int k" by (simp add: k_def)
  then have q: "2 powi quantum ?x = 1 / (2::real) ^ k"
    by (simp add: power_int_minus_divide)
  have "?x / 2 powi quantum ?x = of_int (n * 2 ^ k)"
    by (simp add: q)
  then have "round_half_even (?x / 2 powi quantum ?x) = n * 2 ^ k"
    by (simp only: round_half_even_of_int)
  with False show ?thesis by (simp add: fl_def q)
qed

lemma fl_numeral [simp]: "numeral w < (2::int) ^ 53 \<Longrightarrow> fl (numeral w) = numeral w"
  using fl_of_int [of "numeral w"] by simp

lemma fl_neg_numeral [simp]: "numeral w < (2::int) ^ 53 \<Longrightarrow> fl (- numeral w) = - numeral w"
  using fl_of_int [of "- numeral w"] by simp

lemma fl_0 [simp]: "fl 0 = 0"
  by (simp add: fl_def)

lemma round_half_even_numeral [simp]:
  "round_half_even (numeral w) = numeral w" "round_half_even (- numeral w) = - numeral w"
  "round_half_even 0 = 0"
  using round_half_even_of_int [of "numeral w"] round_half_even_of_int [of "- numeral w"]
    round_half_even_of_int [of 0]
  by simp_all

text \<open>
  Some values of \<open>fl\<close>: the float written \<^verbatim>\<open>0.1\<close>, and two ties above \<open>2\<^sup>5\<^sup>3\<close>,
  where the floats are the even integers.
\<close>

lemma fl_examples:
  "fl (1 / 10) = 3602879701896397 / 36028797018963968"
  "fl (2 ^ 53 + 1) = 2 ^ 53"
  "fl (2 ^ 53 + 3) = 2 ^ 53 + 4"
  by (simp_all add: fl_def quantum_def ilog2_def compute_bitlen round_half_even_def Let_def)




section \<open>Facts about the model\<close>

lemma calculate_interest_eq:
  "calculate_interest P R s a =
     py_round (fdiv (fmul (fmul P R) (float_of_int (a - s))) (float_of_int (100 * 365))) 2"
  by (simp add: calculate_interest_def Let_def)

text \<open>
  One day of interest on 73 at 2.5 percent is 0.005 in exact arithmetic, a tie that would
  round to 0.00. The float nearest to 0.005 lies above it, so \<^verbatim>\<open>round\<close> gives 0.01.
\<close>

lemma calculate_interest_below_tie:
  "calculate_interest 73 (5 / 2) 738886 738887 = fl (1 / 100)"
proof -
  have p: "fmul (fmul 73 (5 / 2)) (float_of_int 1) = 365 / 2"
    by (simp add: fmul_def float_of_int_def fl_def quantum_def ilog2_def compute_bitlen
        round_half_even_def Let_def)
  have q: "fdiv (365 / 2) (float_of_int (100 * 365)) = fl (1 / 200)"
    by (simp add: fdiv_def float_of_int_def)
  have c: "round_half_even (fl (1 / 200) * 100) = 1"
    by (simp add: fl_def quantum_def ilog2_def compute_bitlen round_half_even_def Let_def)
  show ?thesis
    by (simp add: calculate_interest_eq p q [simplified] c py_round_def)
qed

lemma get_all_loans_rows:
  "v \<in> set (get_all_loans today d) \<Longrightarrow>
     current_interest v =
       calculate_interest (l_loan_amount v) (l_interest_rate v) (l_start_date v) today \<and>
     total_amount v = fadd (l_loan_amount v) (current_interest v) \<and>
     days_remaining v = calculate_days_remaining today (l_end_date v) \<and>
     status_color v = status_color_of (days_remaining v) \<and>
     l_status v = ''Active''"
  by (auto simp: get_all_loans_def with_computed_def Let_def)

lemma l_id_with_computed [simp]: "l_id (with_computed today x) = l_id x"
  by (simp add: with_computed_def Let_def)

lemma joined_status [simp]: "joined h (l\<lparr>l_status := s\<rparr>) = joined h l"
  by (simp add: joined_def)

lemma set_get_loan_history:
  "set (get_loan_history d) =
     {joined h l |h l. h \<in> set (loan_history d) \<and> l \<in> set (loans d) \<and> h_loan_id h = l_id l}"
  by (auto simp: get_loan_history_def)


lemma update_loans_status_absent:
  "loan_id \<notin> l_id ` set (loans d) \<Longrightarrow> update_loans_status d loan_id = d"
proof -
  assume "loan_id \<notin> l_id ` set (loans d)"
  then have "map (\<lambda>l. if l_id l = loan_id then l\<lparr>l_status := ''Inactive''\<rparr> else l) (loans d)
      = loans d"
    by (intro map_idI) auto
  then show ?thesis by (simp add: update_loans_status_def)
qed

lemma update_loans_end_date_absent:
  "loan_id \<notin> l_id ` set (loans d) \<Longrightarrow> update_loans_end_date d new_end_date loan_id = d"
proof -
  assume "loan_id \<notin> l_id ` set (loans d)"
  then have "map (\<lambda>l. if l_id l = loan_id then l\<lparr>l_end_date := new_end_date\<rparr> else l) (loans d)
      = loans d"
    by (intro map_idI) auto
  then show ?thesis by (simp add: update_loans_end_date_def)
qed

lemma loans_insert_loan_history [simp]:
  "loans (insert_loan_history now d loan_id action details) = loans d"
  by (simp add: insert_loan_history_def Let_def)

lemma loan_history_insert_loan_history:
  "loan_history (insert_loan_history now d loan_id action details) =
     loan_history d @
       [\<lparr>h_id = next_rowid (loan_history_seq d) (map h_id (loan_history d)),
         h_loan_id = loan_id, h_action = action, h_action_timestamp = now,
         h_details = details\<rparr>]"
  by (simp add: insert_loan_history_def Let_def)

lemma loan_history_update_loans_status [simp]:
  "loan_history (update_loans_status d loan_id) = loan_history d"
  "loan_history_seq (update_loans_status d loan_id) = loan_history_seq d"
  by (simp_all add: update_loans_status_def)

lemma loan_history_update_loans_end_date [simp]:
  "loan_history (update_loans_end_date d new_end_date loan_id) = loan_history d"
  "loan_history_seq (update_loans_end_date d new_end_date loan_id) = loan_history_seq d"
  by (simp_all add: update_loans_end_date_def)

lemma loans_update_loans_status:
  "loans (update_loans_status d loan_id) =
     map (\<lambda>l. if l_id l = loan_id then l\<lparr>l_status := ''Inactive''\<rparr> else l) (loans d)"
  by (simp add: update_loans_status_def)



lemma inactive_after:
  "\<forall>l \<in> set (map (\<lambda>l. if l_id l = loan_id then l\<lparr>l_status := s\<rparr> else l) ls).
     l_id l = loan_id \<longrightarrow> l_status l = s"
  by (simp del: if_image_distrib)

lemma present_after:
  "loan_id \<in> l_id ` set ls \<Longrightarrow>
     \<exists>l \<in> set (map (\<lambda>l. if l_id l = loan_id then l\<lparr>l_status := s\<rparr> else l) ls).
        l_id l = loan_id \<and> l_status l = s"
  by (auto simp del: if_image_distrib)

lemma others_kept:
  "\<forall>l \<in> set ls. l_id l \<noteq> loan_id \<longrightarrow>
     l \<in> set (map (\<lambda>l. if l_id l = loan_id then l\<lparr>l_status := s\<rparr> else l) ls)"
  by (induction ls) simp_all

lemma ids_kept:
  "map l_id (map (\<lambda>l. if l_id l = loan_id then l\<lparr>l_status := s\<rparr> else l) ls) = map l_id ls"
  by (induction ls) simp_all

lemma not_active_after:
  "loan_id \<notin> l_id ` set (map (with_computed today) (filter (\<lambda>l. l_status l = ''Active'')
     (map (\<lambda>l. if l_id l = loan_id then l\<lparr>l_status := ''Inactive''\<rparr> else l) ls)))"
  by (induction ls) (simp_all del: if_image_distrib)

lemma delete_loan_NoFault:
  "delete_loan NoFault now d loan_id reason =
     (True, [],
      insert_loan_history now (update_loans_status d loan_id) loan_id ''DELETE''
        (''Loan marked as inactive. Reason: '' @ reason))"
  by (simp add: delete_loan_def)

lemma delete_loan_success:
  "delete_loan flt now d loan_id reason = (True, shown, d') \<Longrightarrow>
     flt = NoFault \<and> shown = [] \<and>
     d' = insert_loan_history now (update_loans_status d loan_id) loan_id ''DELETE''
            (''Loan marked as inactive. Reason: '' @ reason)"
  by (cases flt) (auto simp: delete_loan_def)

lemma add_loan_success:
  "fst (add_loan flt now d farmer_name father_name amount rate start_date end_date) \<Longrightarrow>
     flt = NoFault"
  by (cases flt) (simp_all add: add_loan_def)

lemma update_loan_end_date_success:
  "fst (update_loan_end_date flt now d loan_id new_end_date reason) \<Longrightarrow> flt = NoFault"
  by (cases flt) (simp_all add: update_loan_end_date_def)

lemma delete_loan_success_fst:
  "fst (delete_loan flt now d loan_id reason) \<Longrightarrow> flt = NoFault"
  by (cases flt) (simp_all add: delete_loan_def)

lemma length_filter_3way:
  "length (filter (\<lambda>x. f x \<le> (30::int)) xs) + length (filter (\<lambda>x. 30 < f x \<and> f x \<le> 90) xs)
     + length (filter (\<lambda>x. 90 < f x) xs) = length xs"
  by (induction xs) auto

subsection \<open>The sample ledger, evaluated\<close>

lemma loans_sample_db:
  "loans sample_db =
     [\<lparr>l_id = 1, l_farmer_name = ''Asha'', l_father_name = ''Devi'', l_loan_amount = 10000,
       l_interest_rate = 10, l_start_date = 738886, l_end_date = 739251, l_status = ''Active'',
       l_created_at = 5\<rparr>]"
  by (simp add: sample_db_def add_loan_def insert_loans_def insert_loan_history_def
      next_rowid_def init_db_def empty_db_def Let_def)

lemma loan_history_sample_db:
  "loan_history sample_db =
     [\<lparr>h_id = 1, h_loan_id = 1, h_action = ''CREATE'', h_action_timestamp = 5,
       h_details = ''Loan created for Asha (s/o Devi) with amount '' @ rupee @ ''10,000.00''\<rparr>]"
  by (simp add: sample_db_def add_loan_def insert_loans_def insert_loan_history_def
      next_rowid_def init_db_def empty_db_def Let_def format_amount_def round_half_even_def
      digits.simps group3.simps zfill_def)

lemma isoformat_examples:
  "isoformat 738886 = ''2024-01-01''" "isoformat 739251 = ''2024-12-31''"
  "isoformat 738945 = ''2024-02-29''"
  by (simp_all add: isoformat_def ord2ymd_def Let_def DAYS_BEFORE_MONTH_def DAYS_IN_MONTH_def
      digits.simps zfill_def)

section \<open>Accrual calculator: the claims\<close>




text \<open>
  \<^bold>\<open>C8\<close>. \<open>calculate_days_remaining\<close> is the whole-day difference of the end date
  and the current date, or 0 when that is negative: it is never negative, and 0 once the
  current date is past the end date. \<open>get_all_loans\<close> gives every row this value.
\<close>

theorem calculate_days_remaining_clamped:
  "calculate_days_remaining today end_date = max (end_date - today) 0
   \<and> 0 \<le> calculate_days_remaining today end_date
   \<and> (end_date < today \<longrightarrow> calculate_days_remaining today end_date = 0)
   \<and> (\<forall>v \<in> set (get_all_loans today d).
         days_remaining v = max (l_end_date v - today) 0 \<and> 0 \<le> days_remaining v)"
  by (auto simp: calculate_days_remaining_def Let_def dest!: get_all_loans_rows)

theorem calculate_days_remaining_clamped_witness:
  "(739251 :: date) < 739300 \<and> calculate_days_remaining 739300 739251 = 0
   \<and> calculate_days_remaining 739068 739251 = 183
   \<and> map days_remaining (get_all_loans 739300 sample_db) = [0]"
proof -
  have rows: "map days_remaining (get_all_loans 739300 sample_db) = [0]"
    by (simp add: get_all_loans_def loans_sample_db with_computed_def Let_def
        calculate_days_remaining_def)
  from calculate_days_remaining_clamped [of 739300 739251 sample_db]
    calculate_days_remaining_clamped [of 739068 739251 sample_db] rows
  show ?thesis by simp
qed

text \<open>
  \<^bold>\<open>C7\<close>. The days remaining fall in exactly one of three buckets: critical (red) up
  to 30, warning (yellow) from 31 to 90, healthy (green) above 90; 30, 31, 90 and 91 fall
  where these limits say. The colours of the page "Manage Loans" use the same limits. The
  three counts of the dashboard add up to the number of rows, and each counts the rows
  that \<open>get_all_loans\<close> gave its colour.
\<close>

theorem risk_buckets_partition:
  "(status_color_of n = ''red'') = (n \<le> 30)
   \<and> (status_color_of n = ''yellow'') = (31 \<le> n \<and> n \<le> 90)
   \<and> (status_color_of n = ''green'') = (90 < n)
   \<and> status_color_of 30 = ''red'' \<and> status_color_of 31 = ''yellow''
   \<and> status_color_of 90 = ''yellow'' \<and> status_color_of 91 = ''green''
   \<and> (color_remaining_days n = ''color: red'') = (status_color_of n = ''red'')
   \<and> (color_remaining_days n = ''color: orange'') = (status_color_of n = ''yellow'')
   \<and> (color_remaining_days n = ''color: green'') = (status_color_of n = ''green'')
   \<and> critical_loans loans_df + warning_loans loans_df + healthy_loans loans_df = length loans_df
   \<and> critical_loans (get_all_loans today d)
        = length (filter (\<lambda>v. status_color v = ''red'') (get_all_loans today d))
   \<and> warning_loans (get_all_loans today d)
        = length (filter (\<lambda>v. status_color v = ''yellow'') (get_all_loans today d))
   \<and> healthy_loans (get_all_loans today d)
        = length (filter (\<lambda>v. status_color v = ''green'') (get_all_loans today d))"
proof -
  have c: "(status_color_of n = ''red'') = (n \<le> 30)"
    "(status_color_of n = ''yellow'') = (31 \<le> n \<and> n \<le> 90)"
    "(status_color_of n = ''green'') = (90 < n)" for n
    by (auto simp: status_color_of_def)
  have m: "(color_remaining_days n = ''color: red'') = (status_color_of n = ''red'')"
    "(color_remaining_days n = ''color: orange'') = (status_color_of n = ''yellow'')"
    "(color_remaining_days n = ''color: green'') = (status_color_of n = ''green'')"
    by (auto simp: status_color_of_def color_remaining_days_def)
  have b: "status_color_of 30 = ''red''" "status_color_of 31 = ''yellow''"
    "status_color_of 90 = ''yellow''" "status_color_of 91 = ''green''"
    by (simp_all add: status_color_of_def)
  have p: "critical_loans loans_df + warning_loans loans_df + healthy_loans loans_df
      = length loans_df"
    unfolding critical_loans_def warning_loans_def healthy_loans_def by (rule length_filter_3way)
  have col: "status_color v = status_color_of (days_remaining v)"
    if "v \<in> set (get_all_loans today d)" for v
    using get_all_loans_rows [OF that] by simp
  have r: "critical_loans (get_all_loans today d)
        = length (filter (\<lambda>v. status_color v = ''red'') (get_all_loans today d))"
    unfolding critical_loans_def
    by (rule arg_cong [where f = length], rule filter_cong) (simp_all add: col c)
  have y: "warning_loans (get_all_loans today d)
        = length (filter (\<lambda>v. status_color v = ''yellow'') (get_all_loans today d))"
    unfolding warning_loans_def
    by (rule arg_cong [where f = length], rule filter_cong) (auto simp: col c)
  have g: "healthy_loans (get_all_loans today d)
        = length (filter (\<lambda>v. status_color v = ''green'') (get_all_loans today d))"
    unfolding healthy_loans_def
    by (rule arg_cong [where f = length], rule filter_cong) (simp_all add: col c)
  from c [of n] m b p r y g show ?thesis by (intro conjI)
qed




section \<open>Ledger store: the claims\<close>

text \<open>
  \<open>add_loan\<close> by itself checks nothing: whatever the dates, the amount and the names, it
  writes the loan row when the storage does not raise. The checks are the form handler's.
\<close>

lemma add_loan_checks_nothing:
  "fst (add_loan NoFault now d farmer_name father_name amount rate start_date end_date)
   \<and> length (loans (snd (snd (add_loan NoFault now d farmer_name father_name amount rate
                                    start_date end_date))))
       = Suc (length (loans d))"
  by (simp add: add_loan_def insert_loans_def Let_def)

text \<open>
  \<^bold>\<open>C2\<close>. When the end date equals or precedes the start date, submitting the form
  of the page "Add New Loan" shows the error "End date must be after start date!" and
  leaves the ledger as it was: the check comes before \<open>add_loan\<close> is called, so no loan
  row and no history entry is written.
\<close>

theorem add_loan_form_rejects_dates:
  assumes "end_date \<le> start_date"
  shows "add_loan_form flt now d farmer_name father_name loan_amount interest_rate
           start_date end_date
           = ([StError ''End date must be after start date!''], d)"
  using assms by (simp add: add_loan_form_def)

theorem add_loan_form_rejects_dates_witness:
  "(738886 :: date) \<le> 738886 \<and>
   add_loan_form NoFault 9 sample_db ''Ravi'' ''Mohan'' 5000 12 738886 738886
     = ([StError ''End date must be after start date!''], sample_db)"
  using add_loan_form_rejects_dates
    [of 738886 738886 NoFault 9 sample_db "''Ravi''" "''Mohan''" 5000 12]
  by simp

text \<open>
  \<^bold>\<open>C3\<close>, as amended. For a loan id that no row of \<open>loans\<close> has,
  \<open>update_loan_end_date\<close> does not fail: when the storage does not raise it returns
  \<open>True\<close>, shows nothing, leaves the \<open>loans\<close> table as it was and appends one UPDATE
  history entry that carries the absent id. It returns \<open>False\<close>, with the ledger
  unchanged, only when the storage raises.
\<close>

theorem update_loan_end_date_absent_id:
  assumes "loan_id \<notin> l_id ` set (loans d)"
  shows "(\<exists>h. update_loan_end_date NoFault now d loan_id new_end_date reason
             = (True, [], d\<lparr>loan_history := loan_history d @ [h], loan_history_seq := h_id h\<rparr>)
            \<and> h_loan_id h = loan_id \<and> h_action h = ''UPDATE'')
       \<and> update_loan_end_date (Raises e) now d loan_id new_end_date reason
             = (False, [StError (''Error updating loan: '' @ e)], d)"
proof
  let ?h = "\<lparr>h_id = next_rowid (loan_history_seq d) (map h_id (loan_history d)),
             h_loan_id = loan_id, h_action = ''UPDATE'', h_action_timestamp = now,
             h_details = ''End date updated to '' @ isoformat new_end_date @ ''. Reason: '' @ reason\<rparr>"
  from assms have "update_loan_end_date NoFault now d loan_id new_end_date reason
      = (True, [], d\<lparr>loan_history := loan_history d @ [?h], loan_history_seq := h_id ?h\<rparr>)"
    by (simp add: update_loan_end_date_def update_loans_end_date_absent insert_loan_history_def
        Let_def)
  then show "\<exists>h. update_loan_end_date NoFault now d loan_id new_end_date reason
             = (True, [], d\<lparr>loan_history := loan_history d @ [h], loan_history_seq := h_id h\<rparr>)
            \<and> h_loan_id h = loan_id \<and> h_action h = ''UPDATE''"
    by (intro exI [of _ ?h]) simp
  show "update_loan_end_date (Raises e) now d loan_id new_end_date reason
             = (False, [StError (''Error updating loan: '' @ e)], d)"
    by (simp add: update_loan_end_date_def)
qed

theorem update_loan_end_date_absent_id_witness:
  "999 \<notin> l_id ` set (loans sample_db) \<and>
   fst (update_loan_end_date NoFault 9 sample_db 999 739616 ''typo'') \<and>
   loans (snd (snd (update_loan_end_date NoFault 9 sample_db 999 739616 ''typo'')))
     = loans sample_db \<and>
   map h_action (loan_history (snd (snd
       (update_loan_end_date NoFault 9 sample_db 999 739616 ''typo''))))
     = [''CREATE'', ''UPDATE'']"
proof -
  have absent: "999 \<notin> l_id ` set (loans sample_db)"
    by (simp add: loans_sample_db)
  from update_loan_end_date_absent_id [OF absent, of 9 739616 "''typo''" "[]"]
  obtain h where "update_loan_end_date NoFault 9 sample_db 999 739616 ''typo''
      = (True, [], sample_db\<lparr>loan_history := loan_history sample_db @ [h],
                             loan_history_seq := h_id h\<rparr>)"
    and "h_action h = ''UPDATE''"
    by blast
  with absent show ?thesis by (simp add: loan_history_sample_db)
qed

text \<open>
  The claim as written fails on the sample ledger, which has no loan 999: the call
  returns \<open>True\<close> and the ledger afterwards has a second history entry, for loan 999.
\<close>

theorem update_loan_end_date_absent_id_counterexample:
  "999 \<notin> l_id ` set (loans sample_db) \<and>
   fst (update_loan_end_date NoFault 9 sample_db 999 739616 ''typo'') = True \<and>
   snd (snd (update_loan_end_date NoFault 9 sample_db 999 739616 ''typo'')) \<noteq> sample_db \<and>
   map h_loan_id (loan_history (snd (snd
       (update_loan_end_date NoFault 9 sample_db 999 739616 ''typo''))))
     = [1, 999]"
proof -
  have "length (loan_history (snd (snd
            (update_loan_end_date NoFault 9 sample_db 999 739616 ''typo''))))
      \<noteq> length (loan_history sample_db)"
    by (simp add: update_loan_end_date_def loan_history_insert_loan_history)
  then have "snd (snd (update_loan_end_date NoFault 9 sample_db 999 739616 ''typo''))
      \<noteq> sample_db"
    by (metis (no_types))
  then show ?thesis
    by (simp add: update_loan_end_date_def loan_history_insert_loan_history loans_sample_db
        loan_history_sample_db)
qed

text \<open>
  \<^bold>\<open>C4\<close>, as amended. When the storage does not raise, \<open>delete_loan\<close> returns
  \<open>True\<close> for every loan id. Every row with that id has the status Inactive afterwards
  (there is one when the id is present), the other rows and all ids are as before, and
  exactly one DELETE history entry with that id is appended, its details ending in the
  given reason. For an id that no row has, the call does not fail: the \<open>loans\<close> table
  is unchanged and the DELETE entry is appended all the same.
\<close>

theorem delete_loan_effect:
  assumes "delete_loan NoFault now d loan_id reason = (ok, shown, d')"
  shows "ok \<and> shown = []
     \<and> (\<forall>l \<in> set (loans d'). l_id l = loan_id \<longrightarrow> l_status l = ''Inactive'')
     \<and> (loan_id \<in> l_id ` set (loans d) \<longrightarrow>
          (\<exists>l \<in> set (loans d'). l_id l = loan_id \<and> l_status l = ''Inactive''))
     \<and> (\<forall>l \<in> set (loans d). l_id l \<noteq> loan_id \<longrightarrow> l \<in> set (loans d'))
     \<and> map l_id (loans d') = map l_id (loans d)
     \<and> (\<exists>h. loan_history d' = loan_history d @ [h] \<and> h_action h = ''DELETE'' \<and>
            h_loan_id h = loan_id \<and> h_details h = ''Loan marked as inactive. Reason: '' @ reason)
     \<and> (loan_id \<notin> l_id ` set (loans d) \<longrightarrow> loans d' = loans d)"
proof -
  from assms have ok: "ok" and shown: "shown = []"
    and d': "d' = insert_loan_history now (update_loans_status d loan_id) loan_id ''DELETE''
                    (''Loan marked as inactive. Reason: '' @ reason)"
    by (simp_all add: delete_loan_NoFault)
  have ls: "loans d' =
      map (\<lambda>l. if l_id l = loan_id then l\<lparr>l_status := ''Inactive''\<rparr> else l) (loans d)"
    by (simp add: d' loans_update_loans_status)
  have 1: "\<forall>l \<in> set (loans d'). l_id l = loan_id \<longrightarrow> l_status l = ''Inactive''"
    unfolding ls by (rule inactive_after)
  have 2: "loan_id \<in> l_id ` set (loans d) \<longrightarrow>
          (\<exists>l \<in> set (loans d'). l_id l = loan_id \<and> l_status l = ''Inactive'')"
    unfolding ls using present_after [of loan_id "loans d" "''Inactive''"] by blast
  have 3: "\<forall>l \<in> set (loans d). l_id l \<noteq> loan_id \<longrightarrow> l \<in> set (loans d')"
    unfolding ls by (rule others_kept)
  have 4: "map l_id (loans d') = map l_id (loans d)"
    unfolding ls by (rule ids_kept)
  have 5: "\<exists>h. loan_history d' = loan_history d @ [h] \<and> h_action h = ''DELETE'' \<and>
            h_loan_id h = loan_id \<and> h_details h = ''Loan marked as inactive. Reason: '' @ reason"
    by (simp add: d' loan_history_insert_loan_history)
  have 6: "loan_id \<notin> l_id ` set (loans d) \<longrightarrow> loans d' = loans d"
    by (simp add: d' update_loans_status_absent)
  from ok shown 1 2 3 4 5 6 show ?thesis by (intro conjI)
qed

theorem delete_loan_effect_witness:
  "1 \<in> l_id ` set (loans sample_db)
   \<and> fst (delete_loan NoFault 9 sample_db 1 ''repaid'')
   \<and> map l_status (loans (snd (snd (delete_loan NoFault 9 sample_db 1 ''repaid''))))
        = [''Inactive'']
   \<and> map h_action (loan_history (snd (snd (delete_loan NoFault 9 sample_db 1 ''repaid''))))
        = [''CREATE'', ''DELETE'']
   \<and> h_details (last (loan_history (snd (snd (delete_loan NoFault 9 sample_db 1 ''repaid'')))))
        = ''Loan marked as inactive. Reason: repaid''
   \<and> 999 \<notin> l_id ` set (loans sample_db)
   \<and> fst (delete_loan NoFault 9 sample_db 999 ''repaid'')
   \<and> loans (snd (snd (delete_loan NoFault 9 sample_db 999 ''repaid''))) = loans sample_db"
proof -
  have eq: "delete_loan NoFault 9 sample_db i ''repaid''
      = (fst (delete_loan NoFault 9 sample_db i ''repaid''),
         fst (snd (delete_loan NoFault 9 sample_db i ''repaid'')),
         snd (snd (delete_loan NoFault 9 sample_db i ''repaid'')))" for i
    by simp
  have conc:
    "map l_status (loans (snd (snd (delete_loan NoFault 9 sample_db 1 ''repaid''))))
        = [''Inactive'']"
    "map h_action (loan_history (snd (snd (delete_loan NoFault 9 sample_db 1 ''repaid''))))
        = [''CREATE'', ''DELETE'']"
    "h_details (last (loan_history (snd (snd (delete_loan NoFault 9 sample_db 1 ''repaid'')))))
        = ''Loan marked as inactive. Reason: repaid''"
    by (simp_all add: delete_loan_def loan_history_insert_loan_history loans_update_loans_status
        loans_sample_db loan_history_sample_db)
  from delete_loan_effect [OF eq [of 1]] delete_loan_effect [OF eq [of 999]] conc
  show ?thesis by (simp add: loans_sample_db)
qed

text \<open>
  The claim as written fails on the sample ledger, which has no loan 999: the call
  returns \<open>True\<close> and a DELETE history entry for loan 999 is written.
\<close>

theorem delete_loan_effect_counterexample:
  "999 \<notin> l_id ` set (loans sample_db)
   \<and> fst (delete_loan NoFault 9 sample_db 999 ''repaid'') = True
   \<and> loan_history (snd (snd (delete_loan NoFault 9 sample_db 999 ''repaid'')))
        \<noteq> loan_history sample_db
   \<and> map h_loan_id (loan_history (snd (snd (delete_loan NoFault 9 sample_db 999 ''repaid''))))
        = [1, 999]
   \<and> map h_action (loan_history (snd (snd (delete_loan NoFault 9 sample_db 999 ''repaid''))))
        = [''CREATE'', ''DELETE'']"
  by (simp add: delete_loan_def loan_history_insert_loan_history loans_sample_db
      loan_history_sample_db)

text \<open>
  \<^bold>\<open>C5\<close>. Every call of \<open>add_loan\<close>, \<open>update_loan_end_date\<close> or \<open>delete_loan\<close>
  that returns \<open>True\<close> appends exactly one entry to the history, tagged CREATE, UPDATE
  or DELETE respectively; the CREATE entry carries the id of the loan row just added, the
  other two the id passed in.
\<close>

theorem one_history_entry_per_success:
  "(fst (add_loan flt now d farmer_name father_name amount rate start_date end_date) \<longrightarrow>
      (\<exists>h. loan_history (snd (snd (add_loan flt now d farmer_name father_name amount rate
                                       start_date end_date)))
              = loan_history d @ [h]
          \<and> h_action h = ''CREATE''
          \<and> h_loan_id h = l_id (last (loans (snd (snd (add_loan flt now d farmer_name father_name
                                       amount rate start_date end_date)))))))
   \<and> (fst (update_loan_end_date flt now d loan_id new_end_date reason) \<longrightarrow>
      (\<exists>h. loan_history (snd (snd (update_loan_end_date flt now d loan_id new_end_date reason)))
              = loan_history d @ [h]
          \<and> h_action h = ''UPDATE'' \<and> h_loan_id h = loan_id))
   \<and> (fst (delete_loan flt now d loan_id reason) \<longrightarrow>
      (\<exists>h. loan_history (snd (snd (delete_loan flt now d loan_id reason))) = loan_history d @ [h]
          \<and> h_action h = ''DELETE'' \<and> h_loan_id h = loan_id))"
proof (intro conjI impI)
  assume "fst (add_loan flt now d farmer_name father_name amount rate start_date end_date)"
  then have "flt = NoFault" by (rule add_loan_success)
  then show "\<exists>h. loan_history (snd (snd (add_loan flt now d farmer_name father_name amount rate
                                       start_date end_date)))
              = loan_history d @ [h]
          \<and> h_action h = ''CREATE''
          \<and> h_loan_id h = l_id (last (loans (snd (snd (add_loan flt now d farmer_name father_name
                                       amount rate start_date end_date)))))"
    by (simp add: add_loan_def insert_loans_def insert_loan_history_def Let_def)
next
  assume "fst (update_loan_end_date flt now d loan_id new_end_date reason)"
  then have "flt = NoFault" by (rule update_loan_end_date_success)
  then show "\<exists>h. loan_history (snd (snd (update_loan_end_date flt now d loan_id new_end_date
                                           reason)))
              = loan_history d @ [h]
          \<and> h_action h = ''UPDATE'' \<and> h_loan_id h = loan_id"
    by (simp add: update_loan_end_date_def loan_history_insert_loan_history)
next
  assume "fst (delete_loan flt now d loan_id reason)"
  then have "flt = NoFault" by (rule delete_loan_success_fst)
  then show "\<exists>h. loan_history (snd (snd (delete_loan flt now d loan_id reason)))
              = loan_history d @ [h]
          \<and> h_action h = ''DELETE'' \<and> h_loan_id h = loan_id"
    by (simp add: delete_loan_def loan_history_insert_loan_history)
qed

theorem one_history_entry_per_success_witness:
  "fst (add_loan NoFault 9 sample_db ''Ravi'' ''Mohan'' 5000 12 738886 739251)
   \<and> map h_action (loan_history (snd (snd
        (add_loan NoFault 9 sample_db ''Ravi'' ''Mohan'' 5000 12 738886 739251))))
       = [''CREATE'', ''CREATE'']
   \<and> fst (update_loan_end_date NoFault 9 sample_db 1 739616 ''extended'')
   \<and> map h_action (loan_history (snd (snd
        (update_loan_end_date NoFault 9 sample_db 1 739616 ''extended''))))
       = [''CREATE'', ''UPDATE'']
   \<and> fst (delete_loan NoFault 9 sample_db 1 ''repaid'')
   \<and> map h_action (loan_history (snd (snd (delete_loan NoFault 9 sample_db 1 ''repaid''))))
       = [''CREATE'', ''DELETE'']"
proof -
  have ok: "fst (add_loan NoFault 9 sample_db ''Ravi'' ''Mohan'' 5000 12 738886 739251)"
    "fst (update_loan_end_date NoFault 9 sample_db 1 739616 ''extended'')"
    "fst (delete_loan NoFault 9 sample_db 1 ''repaid'')"
    by (simp_all add: add_loan_def insert_loans_def Let_def update_loan_end_date_def
        delete_loan_def)
  from one_history_entry_per_success [of NoFault 9 sample_db "''Ravi''" "''Mohan''" 5000 12
      738886 739251 1 739616 "''extended''"] ok(1,2)
  have "map h_action (loan_history (snd (snd
        (add_loan NoFault 9 sample_db ''Ravi'' ''Mohan'' 5000 12 738886 739251))))
       = [''CREATE'', ''CREATE'']"
    and "map h_action (loan_history (snd (snd
        (update_loan_end_date NoFault 9 sample_db 1 739616 ''extended''))))
       = [''CREATE'', ''UPDATE'']"
    by (auto simp: loan_history_sample_db)
  moreover
  from one_history_entry_per_success [of NoFault 9 sample_db "''Ravi''" "''Mohan''" 5000 12
      738886 739251 1 739616 "''repaid''"] ok(3)
  have "map h_action (loan_history (snd (snd (delete_loan NoFault 9 sample_db 1 ''repaid''))))
       = [''CREATE'', ''DELETE'']"
    by (auto simp: loan_history_sample_db)
  ultimately show ?thesis using ok by simp
qed

text \<open>
  \<^bold>\<open>C6\<close>. After \<open>delete_loan\<close> has returned \<open>True\<close> for a loan id, no row of
  \<open>get_all_loans\<close> has that id; every row that \<open>get_loan_history\<close> returned before is
  still returned, and so is the row of every earlier history entry with each loan row of
  its id (those of the deleted loan among them); no history entry and no loan row is
  removed.
\<close>

theorem soft_delete_keeps_history:
  assumes "delete_loan flt now d loan_id reason = (True, shown, d')"
  shows "loan_id \<notin> l_id ` set (get_all_loans today d')
       \<and> set (get_loan_history d) \<subseteq> set (get_loan_history d')
       \<and> (\<forall>h \<in> set (loan_history d). \<forall>l \<in> set (loans d).
             h_loan_id h = l_id l \<longrightarrow> joined h l \<in> set (get_loan_history d'))
       \<and> set (loan_history d) \<subseteq> set (loan_history d')
       \<and> map l_id (loans d') = map l_id (loans d)"
proof -
  from delete_loan_success [OF assms]
  have d': "d' = insert_loan_history now (update_loans_status d loan_id) loan_id ''DELETE''
                    (''Loan marked as inactive. Reason: '' @ reason)"
    by simp
  let ?f = "\<lambda>l. if l_id l = loan_id then l\<lparr>l_status := ''Inactive''\<rparr> else l"
  have ls: "loans d' = map ?f (loans d)"
    by (simp add: d' loans_update_loans_status)
  have hs: "set (loan_history d) \<subseteq> set (loan_history d')"
    by (auto simp: d' loan_history_insert_loan_history)
  have active: "loan_id \<notin> l_id ` set (get_all_loans today d')"
    unfolding get_all_loans_def ls by (rule not_active_after)
  have row: "joined h l \<in> set (get_loan_history d')"
    if "h \<in> set (loan_history d)" "l \<in> set (loans d)" "h_loan_id h = l_id l" for h l
  proof -
    from that hs have "h \<in> set (loan_history d')" by blast
    moreover from that(2) have "?f l \<in> set (loans d')" unfolding ls set_map by (rule imageI)
    moreover from that have "h_loan_id h = l_id (?f l)" by simp
    moreover have "joined h (?f l) = joined h l" by simp
    ultimately have "\<exists>h' l'. joined h l = joined h' l' \<and> h' \<in> set (loan_history d') \<and>
        l' \<in> set (loans d') \<and> h_loan_id h' = l_id l'"
      by (intro exI [of _ h] exI [of _ "?f l"]) simp
    then show ?thesis
      unfolding set_get_loan_history by simp
  qed
  then have sub: "set (get_loan_history d) \<subseteq> set (get_loan_history d')"
    by (auto simp: set_get_loan_history [of d])
  have ids: "map l_id (loans d') = map l_id (loans d)"
    unfolding ls by (rule ids_kept)
  from row have rows: "\<forall>h \<in> set (loan_history d). \<forall>l \<in> set (loans d).
             h_loan_id h = l_id l \<longrightarrow> joined h l \<in> set (get_loan_history d')"
    by simp
  from active sub rows hs ids show ?thesis by (intro conjI)
qed

theorem soft_delete_keeps_history_witness:
  "fst (delete_loan NoFault 9 sample_db 1 ''repaid'')
   \<and> map l_id (get_all_loans 739068 sample_db) = [1]
   \<and> 1 \<notin> l_id ` set (get_all_loans 739068
                        (snd (snd (delete_loan NoFault 9 sample_db 1 ''repaid''))))
   \<and> set (get_loan_history sample_db)
        \<subseteq> set (get_loan_history (snd (snd (delete_loan NoFault 9 sample_db 1 ''repaid''))))
   \<and> map v_action (get_loan_history sample_db) = [''CREATE'']
   \<and> map l_id (loans (snd (snd (delete_loan NoFault 9 sample_db 1 ''repaid'')))) = [1]"
proof -
  have eq: "delete_loan NoFault 9 sample_db 1 ''repaid''
      = (True, fst (snd (delete_loan NoFault 9 sample_db 1 ''repaid'')),
         snd (snd (delete_loan NoFault 9 sample_db 1 ''repaid'')))"
    by (simp add: delete_loan_def)
  have before: "map l_id (get_all_loans 739068 sample_db) = [1]"
    "map v_action (get_loan_history sample_db) = [''CREATE'']"
    by (simp_all add: get_all_loans_def get_loan_history_def loans_sample_db
        loan_history_sample_db joined_def)
  from soft_delete_keeps_history [OF eq, of 739068] before
  show ?thesis by (simp add: delete_loan_def loans_sample_db)
qed



end
